theory Spec2Isabelle
  imports Main "HOL-Library.Word"
begin

section \<open>JavaScript strings\<close>

text \<open>
  A JavaScript string is a sequence of UTF-16 code units. String literals of the source
  are ASCII, so \<open>js ''HEALTHY''\<close> is the string written \<^verbatim>\<open>"HEALTHY"\<close> there.
  Strict equality \<^verbatim>\<open>===\<close> on strings is equality of the code-unit sequences, and a
  template literal whose substitutions are strings is their concatenation.
\<close>

type_synonym jsstring = "16 word list"

abbreviation js :: "string \<Rightarrow> jsstring" where
  "js s \<equiv> map of_char s"

text \<open>
  \<^verbatim>\<open>String.prototype.trim\<close> removes the code points of WhiteSpace and LineTerminator
  (ECMAScript 12.2, 12.3) from both ends. All of them lie in the Basic Multilingual
  Plane, so a test per code unit is exact.
\<close>

definition isWhiteSpace :: "16 word \<Rightarrow> bool" where
  "isWhiteSpace c \<longleftrightarrow>
     c \<in> set [0x0009, 0x000A, 0x000B, 0x000C, 0x000D, 0x0020, 0x00A0, 0x1680,
              0x2028, 0x2029, 0x202F, 0x205F, 0x3000, 0xFEFF]
     \<or> (0x2000 \<le> c \<and> c \<le> 0x200A)"

definition trim :: "jsstring \<Rightarrow> jsstring" where
  "trim s = rev (dropWhile isWhiteSpace (rev (dropWhile isWhiteSpace s)))"

text \<open>
  \<^verbatim>\<open>String.prototype.toUpperCase\<close> reads the string as code points (a high surrogate
  followed by a low surrogate is one code point, any other code unit stands for itself)
  and replaces each code point by its Unicode uppercase mapping, which may be several
  code points long. Below U+0080 the mapping sends \<open>a\<close>..\<open>z\<close> to \<open>A\<close>..\<open>Z\<close> and fixes
  everything else. The mapping of the code points from U+0080 on is the Unicode
  character database, which is not part of the program: it is the parameter
  \<open>uc\<close>, giving for a code point the UTF-16 code units of its uppercase mapping.
\<close>

type_synonym case_table = "nat \<Rightarrow> jsstring"

definition asciiUpper :: "16 word \<Rightarrow> 16 word" where
  "asciiUpper c = (if 0x61 \<le> c \<and> c \<le> 0x7A then c - 0x20 else c)"

definition isHighSurrogate :: "16 word \<Rightarrow> bool" where
  "isHighSurrogate c \<longleftrightarrow> 0xD800 \<le> c \<and> c \<le> 0xDBFF"

definition isLowSurrogate :: "16 word \<Rightarrow> bool" where
  "isLowSurrogate c \<longleftrightarrow> 0xDC00 \<le> c \<and> c \<le> 0xDFFF"

definition codePointOfPair :: "16 word \<Rightarrow> 16 word \<Rightarrow> nat" where
  "codePointOfPair hi lo = (unat hi - 0xD800) * 0x400 + (unat lo - 0xDC00) + 0x10000"

definition upperCodeUnit :: "case_table \<Rightarrow> 16 word \<Rightarrow> jsstring" where
  "upperCodeUnit uc c = (if c < 0x80 then [asciiUpper c] else uc (unat c))"

fun toUpperCase :: "case_table \<Rightarrow> jsstring \<Rightarrow> jsstring" where
  "toUpperCase uc [] = []"
| "toUpperCase uc [c] = upperCodeUnit uc c"
| "toUpperCase uc (c # d # cs) =
     (if isHighSurrogate c \<and> isLowSurrogate d
      then uc (codePointOfPair c d) @ toUpperCase uc cs
      else upperCodeUnit uc c @ toUpperCase uc (d # cs))"

text \<open>
  \<^verbatim>\<open>Array.prototype.join\<close>: the result starts empty; before every element but the
  first the separator is appended, then the element.
\<close>

fun joinFrom :: "jsstring \<Rightarrow> jsstring \<Rightarrow> nat \<Rightarrow> jsstring list \<Rightarrow> jsstring" where
  "joinFrom sep r k [] = r"
| "joinFrom sep r k (x # xs) =
     joinFrom sep ((if k > 0 then r @ sep else r) @ x) (Suc k) xs"

definition join :: "jsstring \<Rightarrow> jsstring list \<Rightarrow> jsstring" where
  "join sep xs = joinFrom sep [] 0 xs"

section \<open>Errors\<close>

text \<open>
  Every error of the program is a JavaScript \<^verbatim>\<open>Error\<close> object built from a message.
  A function that returns or throws has a result of type \<open>js_error + 'a\<close>.
\<close>

datatype js_error = Error (message: jsstring)

section \<open>Response validators\<close>

definition validateHealthResponse :: "case_table \<Rightarrow> jsstring \<Rightarrow> js_error + jsstring" where
  "validateHealthResponse uc response =
     (let trimmed = toUpperCase uc (trim response) in
      if trimmed = js ''HEALTHY'' \<or> trimmed = js ''UNHEALTHY'' then Inr trimmed
      else Inl (Error (js ''Invalid health check response: '' @ response)))"

definition validResponses :: "jsstring list" where
  "validResponses =
     [js ''DEPENDENCY_FAILURE'', js ''PARTIAL_DEPENDENCY'', js ''DEPENDENCIES_HEALTHY'']"

definition validateDependencyResponse :: "case_table \<Rightarrow> jsstring \<Rightarrow> js_error + jsstring" where
  "validateDependencyResponse uc response =
     (let trimmed = toUpperCase uc (trim response) in
      if trimmed \<in> set validResponses then Inr trimmed
      else Inl (Error (js ''Invalid dependency check response: '' @ response)))"

section \<open>Promises\<close>

text \<open>
  An asynchronous computation ends fulfilled with a value, rejected with an error, or
  never settles (a remote call that hangs). \<open>settled\<close> is the promise of an
  \<^verbatim>\<open>async\<close> step that runs a synchronous function, \<open>andThen\<close> is \<^verbatim>\<open>await\<close> followed
  by the rest of the computation.
\<close>

datatype 'a promise = Fulfilled 'a | Rejected js_error | Pending

fun settled :: "js_error + 'a \<Rightarrow> 'a promise" where
  "settled (Inr v) = Fulfilled v"
| "settled (Inl e) = Rejected e"

fun andThen :: "'a promise \<Rightarrow> ('a \<Rightarrow> 'b promise) \<Rightarrow> 'b promise" where
  "andThen (Fulfilled v) f = f v"
| "andThen (Rejected e) f = Rejected e"
| "andThen Pending f = Pending"

text \<open>
  \<^verbatim>\<open>Promise.all\<close> of two promises rejects as soon as one of them rejects, with the error
  of the one that rejected first; which one that is when both reject depends on the
  order in which they settle, given by a \<open>race\<close>. It fulfils with both values once both
  have fulfilled, and otherwise never settles.
\<close>

datatype race = FirstSettlesFirst | SecondSettlesFirst

fun promiseAll :: "race \<Rightarrow> 'a promise \<Rightarrow> 'b promise \<Rightarrow> ('a \<times> 'b) promise" where
  "promiseAll FirstSettlesFirst (Rejected e) (Rejected e') = Rejected e"
| "promiseAll SecondSettlesFirst (Rejected e) (Rejected e') = Rejected e'"
| "promiseAll r (Rejected e) (Fulfilled y) = Rejected e"
| "promiseAll r (Rejected e) Pending = Rejected e"
| "promiseAll r (Fulfilled x) (Rejected e') = Rejected e'"
| "promiseAll r Pending (Rejected e') = Rejected e'"
| "promiseAll r (Fulfilled x) (Fulfilled y) = Fulfilled (x, y)"
| "promiseAll r (Fulfilled x) Pending = Pending"
| "promiseAll r Pending (Fulfilled y) = Pending"
| "promiseAll r Pending Pending = Pending"

section \<open>Data model\<close>

text \<open>
  The metric values are never inspected by the program, only passed on: their type is
  the parameter \<open>'n\<close>.
\<close>

record 'n systemMetrics =
  cpuUsage :: 'n
  memoryUsage :: 'n
  diskUsage :: 'n
  responseTime :: 'n
  errorRate :: 'n

record dependency =
  name :: jsstring
  status :: jsstring
  critical :: bool

record 'n healthCheckInput = "'n systemMetrics" +
  dependencies :: "dependency list"

record 'n preparedData =
  systemMetrics :: "'n systemMetrics"
  dependencies :: jsstring
  originalInput :: "'n healthCheckInput"

record 'n checkResults =
  systemHealth :: jsstring
  dependencyHealth :: jsstring
  originalInput :: "'n healthCheckInput"

record 'n checkedComponents =
  cpu :: 'n
  memory :: 'n
  disk :: 'n
  responseTime :: 'n
  errorRate :: 'n
  dependencies :: nat

record 'n comprehensiveResult =
  status :: jsstring
  systemHealth :: jsstring
  dependencyHealth :: jsstring
  reasoning :: "jsstring list"
  timestamp :: jsstring
  checkedComponents :: "'n checkedComponents"

record 'n formattedResponse =
  httpStatus :: nat
  message :: jsstring
  details :: "'n comprehensiveResult"
  recommendations :: "jsstring list"

section \<open>The language model and the runtime\<close>

text \<open>
  The first three stages of each analysis chain (prompt template, chat model, string
  output parser) belong to the LangChain library and the remote service. Together they
  are the oracle: it is invoked with the input of the chain and its promise fulfils with
  the raw text of the answer, rejects, or never settles. A chain returns, with its
  promise, the list of oracle invocations it has made.

  The runtime also holds what else the program reads from its environment: the
  uppercase table, the order in which two concurrent rejections arrive, and the clock,
  as the string that \<^verbatim>\<open>new Date().toISOString()\<close> returns.
\<close>

datatype 'n oracle_call = HealthQuery "'n systemMetrics" | DependencyQuery jsstring

record 'n runtime =
  caseTable :: case_table
  llmAnswer :: "'n oracle_call \<Rightarrow> jsstring promise"
  settleOrder :: race
  nowISO :: jsstring

definition invokeOracle ::
  "'n runtime \<Rightarrow> 'n oracle_call \<Rightarrow> 'n oracle_call list \<times> jsstring promise" where
  "invokeOracle rt q = ([q], llmAnswer rt q)"

definition healthAnalysisChain ::
  "'n runtime \<Rightarrow> 'n systemMetrics \<Rightarrow> 'n oracle_call list \<times> jsstring promise" where
  "healthAnalysisChain rt metrics =
     (let (calls, raw) = invokeOracle rt (HealthQuery metrics)
      in (calls, andThen raw (\<lambda>response.
            settled (validateHealthResponse (caseTable rt) response))))"

definition dependencyCheckChain ::
  "'n runtime \<Rightarrow> jsstring \<Rightarrow> 'n oracle_call list \<times> jsstring promise" where
  "dependencyCheckChain rt deps =
     (let (calls, raw) = invokeOracle rt (DependencyQuery deps)
      in (calls, andThen raw (\<lambda>response.
            settled (validateDependencyResponse (caseTable rt) response))))"

section \<open>The comprehensive health chain\<close>

text \<open>
  The dependency list is rendered by the same expression in the comprehensive chain and
  in the dependency endpoint: one line per dependency, joined by line feeds.
\<close>

definition dependencyLine :: "dependency \<Rightarrow> jsstring" where
  "dependencyLine dep =
     js ''- '' @ name dep @ js '': '' @ dependency.status dep @ js '' ('' @
     (if critical dep then js ''Critical'' else js ''Non-Critical'') @ js '')''"

definition dependencyString :: "dependency list \<Rightarrow> jsstring" where
  "dependencyString deps = join [0x0A] (map dependencyLine deps)"

text \<open>Step 1: prepare data for parallel processing.\<close>

definition prepareData :: "'n healthCheckInput \<Rightarrow> 'n preparedData" where
  "prepareData input =
     \<lparr> systemMetrics =
         \<lparr> cpuUsage = cpuUsage input,
           memoryUsage = memoryUsage input,
           diskUsage = diskUsage input,
           systemMetrics.responseTime = systemMetrics.responseTime input,
           systemMetrics.errorRate = systemMetrics.errorRate input \<rparr>,
       preparedData.dependencies = dependencyString (healthCheckInput.dependencies input),
       preparedData.originalInput = input \<rparr>"

text \<open>
  Step 2: both chains are invoked, then awaited together; a rejection is caught and
  thrown again under a new message.
\<close>

definition runHealthChecks ::
  "'n runtime \<Rightarrow> 'n preparedData \<Rightarrow> 'n oracle_call list \<times> 'n checkResults promise" where
  "runHealthChecks rt data =
     (let (calls1, p1) = healthAnalysisChain rt (systemMetrics data);
          (calls2, p2) = dependencyCheckChain rt (preparedData.dependencies data)
      in (calls1 @ calls2,
          case promiseAll (settleOrder rt) p1 p2 of
            Fulfilled (sysHealth, depHealth) \<Rightarrow>
              Fulfilled \<lparr> checkResults.systemHealth = sysHealth,
                          checkResults.dependencyHealth = depHealth,
                          originalInput = preparedData.originalInput data \<rparr>
          | Rejected err \<Rightarrow>
              Rejected (Error (js ''Health check failed: '' @ js_error.message err))
          | Pending \<Rightarrow> Pending))"

text \<open>
  Step 3: the business logic. The two variables \<^verbatim>\<open>overallHealth\<close> and \<^verbatim>\<open>reasoning\<close>
  are updated by two consecutive conditionals.
\<close>

record verdict_state =
  overallHealth :: jsstring
  reasoningSoFar :: "jsstring list"

definition checkSystemHealth :: "jsstring \<Rightarrow> verdict_state \<Rightarrow> verdict_state" where
  "checkSystemHealth sysHealth st =
     (if sysHealth = js ''UNHEALTHY''
      then st\<lparr> overallHealth := js ''UNHEALTHY'',
               reasoningSoFar := reasoningSoFar st @ [js ''System metrics indicate unhealthy state''] \<rparr>
      else st\<lparr> reasoningSoFar :=
                 reasoningSoFar st @ [js ''System metrics are within healthy ranges''] \<rparr>)"

definition checkDependencyHealth :: "jsstring \<Rightarrow> verdict_state \<Rightarrow> verdict_state" where
  "checkDependencyHealth depHealth st =
     (if depHealth = js ''DEPENDENCY_FAILURE''
      then st\<lparr> overallHealth := js ''UNHEALTHY'',
               reasoningSoFar := reasoningSoFar st @ [js ''Critical dependencies are failing''] \<rparr>
      else if depHealth = js ''PARTIAL_DEPENDENCY''
      then st\<lparr> reasoningSoFar :=
                 reasoningSoFar st @ [js ''Some non-critical dependencies are down''] \<rparr>
      else st\<lparr> reasoningSoFar := reasoningSoFar st @ [js ''All dependencies are healthy''] \<rparr>)"

definition applyBusinessLogic :: "'n runtime \<Rightarrow> 'n checkResults \<Rightarrow> 'n comprehensiveResult" where
  "applyBusinessLogic rt results =
     (let input = checkResults.originalInput results;
          st0 = \<lparr> overallHealth = js ''HEALTHY'', reasoningSoFar = [] \<rparr>;
          st1 = checkSystemHealth (checkResults.systemHealth results) st0;
          st2 = checkDependencyHealth (checkResults.dependencyHealth results) st1
      in \<lparr> status = overallHealth st2,
           systemHealth = checkResults.systemHealth results,
           dependencyHealth = checkResults.dependencyHealth results,
           reasoning = reasoningSoFar st2,
           timestamp = nowISO rt,
           checkedComponents =
             \<lparr> cpu = cpuUsage input,
               memory = memoryUsage input,
               disk = diskUsage input,
               responseTime = systemMetrics.responseTime input,
               errorRate = systemMetrics.errorRate input,
               dependencies = length (healthCheckInput.dependencies input) \<rparr> \<rparr>)"

definition comprehensiveHealthChain ::
  "'n runtime \<Rightarrow> 'n healthCheckInput \<Rightarrow> 'n oracle_call list \<times> 'n comprehensiveResult promise" where
  "comprehensiveHealthChain rt input =
     (let data = prepareData input;
          (calls, checked) = runHealthChecks rt data
      in (calls, andThen checked (\<lambda>results. Fulfilled (applyBusinessLogic rt results))))"

section \<open>The conditional response chain\<close>

definition healthyResponseChain :: "'n comprehensiveResult \<Rightarrow> 'n formattedResponse" where
  "healthyResponseChain input =
     \<lparr> httpStatus = 200,
       message = js ''System is healthy'',
       details = input,
       recommendations = [] \<rparr>"

definition unhealthyResponseChain :: "'n comprehensiveResult \<Rightarrow> 'n formattedResponse" where
  "unhealthyResponseChain input =
     (let recommendations0 = [];
          recommendations1 =
            (if systemHealth input = js ''UNHEALTHY''
             then recommendations0 @ [js ''Check system resources and optimize performance'']
             else recommendations0);
          recommendations2 =
            (if dependencyHealth input = js ''DEPENDENCY_FAILURE''
             then recommendations1 @ [js ''Investigate and restore critical service dependencies'']
             else recommendations1)
      in \<lparr> httpStatus = 500,
           message = js ''System is unhealthy'',
           details = input,
           recommendations = recommendations2 \<rparr>)"

definition conditionalResponseChain :: "'n comprehensiveResult \<Rightarrow> 'n formattedResponse" where
  "conditionalResponseChain input =
     (if status input = js ''HEALTHY'' then healthyResponseChain input
      else unhealthyResponseChain input)"

section \<open>The master chain\<close>

definition masterHealthCheckChain ::
  "'n runtime \<Rightarrow> 'n healthCheckInput \<Rightarrow> 'n oracle_call list \<times> 'n formattedResponse promise" where
  "masterHealthCheckChain rt input =
     (let (calls, result) = comprehensiveHealthChain rt input
      in (calls, andThen result (\<lambda>r. Fulfilled (conditionalResponseChain r))))"

section \<open>The dependency endpoint\<close>

text \<open>
  The handler of \<^verbatim>\<open>POST /api/health/dependencies\<close> reads the property
  \<^verbatim>\<open>dependencies\<close> of the parsed request body, an object. The property is any
  JavaScript value that JSON can give, or \<^verbatim>\<open>undefined\<close> when it is absent; of an object
  that is not an array nothing is read, and the elements of an array are taken to be
  dependency objects of the data model.
\<close>

datatype 'v jsvalue =
    JSUndefined
  | JSNull
  | JSBoolean bool
  | JSNumber 'v
  | JSString jsstring
  | JSObject
  | JSArray "dependency list"

fun toBoolean :: "'v::zero jsvalue \<Rightarrow> bool" where
  "toBoolean JSUndefined = False"
| "toBoolean JSNull = False"
| "toBoolean (JSBoolean b) = b"
| "toBoolean (JSNumber n) = (n \<noteq> 0)"
| "toBoolean (JSString s) = (s \<noteq> [])"
| "toBoolean JSObject = True"
| "toBoolean (JSArray ds) = True"

fun isArray :: "'v jsvalue \<Rightarrow> bool" where
  "isArray (JSArray ds) = True"
| "isArray _ = False"

text \<open>
  The JSON object of a reply; \<open>None\<close> is a property that the object does not have.
  The handler answers at most once: its result is \<open>None\<close> when it never answers.
\<close>

record replyBody =
  status :: jsstring
  dependencyHealth :: "jsstring option"
  dependencies :: "dependency list option"
  message :: jsstring
  error :: "jsstring option"
  timestamp :: "jsstring option"

record httpReply =
  statusCode :: nat
  body :: replyBody

definition dependencyFailureReply :: "'n runtime \<Rightarrow> js_error \<Rightarrow> httpReply" where
  "dependencyFailureReply rt err =
     \<lparr> statusCode = 500,
       body = \<lparr> status = js ''error'',
                dependencyHealth = None,
                dependencies = None,
                message = js ''Dependency check system failure'',
                error = Some (js_error.message err),
                timestamp = Some (nowISO rt) \<rparr> \<rparr>"

definition postHealthDependencies ::
  "'n runtime \<Rightarrow> 'v::zero jsvalue \<Rightarrow> 'n oracle_call list \<times> httpReply option" where
  "postHealthDependencies rt deps =
     (if \<not> toBoolean deps \<or> \<not> isArray deps
      then ([], Some \<lparr> statusCode = 400,
                       body = \<lparr> status = js ''error'',
                                dependencyHealth = None,
                                dependencies = None,
                                message = js ''Dependencies array is required in request body'',
                                error = None,
                                timestamp = None \<rparr> \<rparr>)
      else case deps of
        JSArray ds \<Rightarrow>
          (let (calls, checked) = dependencyCheckChain rt (dependencyString ds)
           in (calls,
               case checked of
                 Fulfilled depHealth \<Rightarrow>
                   (let isHealthy = (depHealth = js ''DEPENDENCIES_HEALTHY'')
                    in Some \<lparr> statusCode = (if isHealthy then 200 else 500),
                              body = \<lparr> status = (if isHealthy then js ''healthy''
                                                  else js ''unhealthy''),
                                       dependencyHealth = Some depHealth,
                                       dependencies = Some ds,
                                       message = (if isHealthy
                                                  then js ''All dependencies are healthy''
                                                  else js ''Some dependencies are failing''),
                                       error = None,
                                       timestamp = Some (nowISO rt) \<rparr> \<rparr>)
               | Rejected err \<Rightarrow> Some (dependencyFailureReply rt err)
               | Pending \<Rightarrow> None))
      | _ \<Rightarrow>
          ([], Some (dependencyFailureReply rt
                       (Error (js ''dependencies.map is not a function'')))))"

section \<open>A scripted language model\<close>

text \<open>
  For the examples: a runtime whose language model settles every health query in one
  given way and every dependency query in another, with an uppercase table that no
  example consults, and the input of the end-to-end example of the specification.
\<close>

definition scriptedRuntime :: "jsstring promise \<Rightarrow> jsstring promise \<Rightarrow> int runtime" where
  "scriptedRuntime health deps =
     \<lparr> caseTable = (\<lambda>cp. []),
       llmAnswer = (\<lambda>q. case q of HealthQuery m \<Rightarrow> health | DependencyQuery s \<Rightarrow> deps),
       settleOrder = FirstSettlesFirst,
       nowISO = js ''2025-01-01T00:00:00.000Z'' \<rparr>"

definition exampleInput :: "int healthCheckInput" where
  "exampleInput =
     \<lparr> cpuUsage = 10, memoryUsage = 10, diskUsage = 10,
       systemMetrics.responseTime = 50, systemMetrics.errorRate = 0,
       healthCheckInput.dependencies =
         [\<lparr> name = js ''DB'', dependency.status = js ''up'', critical = True \<rparr>] \<rparr>"

section \<open>Auxiliary facts\<close>

subsection \<open>Strings\<close>

lemma toUpperCase_ascii:
  "list_all (\<lambda>c. c < 0x80) s \<Longrightarrow> toUpperCase uc s = map asciiUpper s"
proof (induction uc s rule: toUpperCase.induct)
  case (1 uc)
  show ?case by simp
next
  case (2 uc c)
  then show ?case by (simp add: upperCodeUnit_def)
next
  case (3 uc c d cs)
  from "3.prems" have c: "c < 0x80" and rest: "list_all (\<lambda>c. c < 0x80) (d # cs)"
    by simp_all
  from c have "\<not> isHighSurrogate c"
    by (simp add: isHighSurrogate_def word_le_nat_alt word_less_nat_alt)
  with c rest "3.IH"(2) show ?case
    by (simp add: upperCodeUnit_def)
qed

lemma dropWhile_whitespace_prefix:
  "list_all isWhiteSpace pre \<Longrightarrow> \<not> isWhiteSpace (hd (s @ t)) \<Longrightarrow>
   dropWhile isWhiteSpace (pre @ s @ t) = s @ t"
  by (induction pre) (auto simp: dropWhile_eq_self_iff)


lemma trim_surrounded:
  assumes "list_all isWhiteSpace pre" "list_all isWhiteSpace post"
    and "h \<noteq> []" "\<not> isWhiteSpace (hd h)" "\<not> isWhiteSpace (last h)"
  shows "trim (pre @ h @ post) = h"
proof -
  from assms(1,3,4) have front: "dropWhile isWhiteSpace (pre @ h @ post) = h @ post"
    by (intro dropWhile_whitespace_prefix) simp_all
  have "rev (h @ post) = rev post @ rev h @ []" by simp
  moreover from assms(2,3,5) have "dropWhile isWhiteSpace (rev post @ rev h @ []) = rev h @ []"
    by (intro dropWhile_whitespace_prefix) (simp_all add: hd_rev)
  ultimately show ?thesis by (simp add: trim_def front)
qed

lemma joinFrom_pos:
  "k > 0 \<Longrightarrow> joinFrom sep r k xs = r @ concat (map (\<lambda>x. sep @ x) xs)"
  by (induction xs arbitrary: r k) simp_all

lemma join_Nil: "join sep [] = []"
  by (simp add: join_def)

lemma join_single: "join sep [x] = x"
  by (simp add: join_def)

lemma join_Cons2: "join sep (x # y # xs) = x @ sep @ join sep (y # xs)"
  by (simp add: join_def joinFrom_pos)



lemma isWhiteSpace_range: "isWhiteSpace c \<Longrightarrow> unat c \<le> 0x20 \<or> 0xA0 \<le> unat c"
  unfolding isWhiteSpace_def by (auto simp: word_le_nat_alt)

lemma upper_letter_unat:
  assumes "0x41 \<le> u" "u \<le> (0x5A :: 16 word)"
  shows "0x41 \<le> unat u" "unat u \<le> 0x5A" "unat (u + 0x20) = unat u + 0x20"
proof -
  from assms show b: "0x41 \<le> unat u" "unat u \<le> 0x5A"
    by (simp_all add: word_le_nat_alt)
  then show "unat (u + 0x20) = unat u + 0x20"
    by (simp add: unat_word_ariths)
qed

lemma casing_unit:
  assumes "c = u \<or> c = u + 0x20" "0x41 \<le> u" "u \<le> (0x5A :: 16 word)"
  shows "asciiUpper c = u" "c < 0x80" "\<not> isWhiteSpace c"
proof -
  note n = upper_letter_unat [OF assms(2,3)]
  from assms(1) n have c: "unat c = unat u \<or> unat c = unat u + 0x20"
    by auto
  with n show "c < 0x80"
    by (auto simp: word_less_nat_alt)
  from c n isWhiteSpace_range [of c] show "\<not> isWhiteSpace c"
    by auto
  from assms(1) show "asciiUpper c = u"
  proof
    assume "c = u"
    with n show ?thesis by (simp add: asciiUpper_def word_le_nat_alt)
  next
    assume "c = u + 0x20"
    with n show ?thesis by (simp add: asciiUpper_def word_le_nat_alt)
  qed
qed

lemma casing_all:
  "list_all2 (\<lambda>c u. c = u \<or> c = u + 0x20) h U \<Longrightarrow> list_all (\<lambda>u. 0x41 \<le> u \<and> u \<le> 0x5A) U \<Longrightarrow>
   map asciiUpper h = U \<and> list_all (\<lambda>c. c < 0x80) h \<and> list_all (\<lambda>c. \<not> isWhiteSpace c) h"
  by (induction rule: list_all2_induct) (simp_all add: casing_unit)

lemma validateHealthResponse_casing:
  assumes "list_all isWhiteSpace pre" "list_all isWhiteSpace post"
    and "list_all2 (\<lambda>c u. c = u \<or> c = u + 0x20) h (js ''HEALTHY'')"
  shows "validateHealthResponse uc (pre @ h @ post) = Inr (js ''HEALTHY'')"
proof -
  have "list_all (\<lambda>u. 0x41 \<le> u \<and> u \<le> (0x5A :: 16 word)) (js ''HEALTHY'')"
    by simp
  with assms(3) have up: "map asciiUpper h = js ''HEALTHY''"
    and ascii: "list_all (\<lambda>c. c < 0x80) h"
    and nows: "list_all (\<lambda>c. \<not> isWhiteSpace c) h"
    using casing_all by blast+
  from up have ne: "h \<noteq> []" by auto
  with nows have "\<not> isWhiteSpace (hd h)" "\<not> isWhiteSpace (last h)"
    by (simp_all add: list_all_iff)
  with assms(1,2) ne have "trim (pre @ h @ post) = h"
    by (rule trim_surrounded)
  with up ascii show ?thesis
    by (simp add: validateHealthResponse_def toUpperCase_ascii)
qed

subsection \<open>Promises and chains\<close>

lemma promiseAll_Fulfilled_iff:
  "promiseAll r p q = Fulfilled v \<longleftrightarrow> (\<exists>x y. p = Fulfilled x \<and> q = Fulfilled y \<and> v = (x, y))"
  by (cases r; cases p; cases q) auto

lemma promiseAll_Rejected_iff:
  "(\<exists>e. promiseAll r p q = Rejected e) \<longleftrightarrow> (\<exists>e. p = Rejected e) \<or> (\<exists>e. q = Rejected e)"
  by (cases r; cases p; cases q) auto

lemma promiseAll_Rejected_source:
  "promiseAll r p q = Rejected e \<Longrightarrow> p = Rejected e \<or> q = Rejected e"
  by (cases r; cases p; cases q) auto

lemma healthAnalysisChain_Fulfilled_iff:
  "snd (healthAnalysisChain rt m) = Fulfilled v \<longleftrightarrow>
   (\<exists>raw. llmAnswer rt (HealthQuery m) = Fulfilled raw \<and>
          validateHealthResponse (caseTable rt) raw = Inr v)"
  by (cases "llmAnswer rt (HealthQuery m)")
     (auto simp: healthAnalysisChain_def invokeOracle_def
           elim: settled.elims)

lemma healthAnalysisChain_Rejected_iff:
  "snd (healthAnalysisChain rt m) = Rejected e \<longleftrightarrow>
   llmAnswer rt (HealthQuery m) = Rejected e \<or>
   (\<exists>raw. llmAnswer rt (HealthQuery m) = Fulfilled raw \<and>
          validateHealthResponse (caseTable rt) raw = Inl e)"
  by (cases "llmAnswer rt (HealthQuery m)")
     (auto simp: healthAnalysisChain_def invokeOracle_def
           elim: settled.elims)

lemma dependencyCheckChain_Fulfilled_iff:
  "snd (dependencyCheckChain rt d) = Fulfilled v \<longleftrightarrow>
   (\<exists>raw. llmAnswer rt (DependencyQuery d) = Fulfilled raw \<and>
          validateDependencyResponse (caseTable rt) raw = Inr v)"
  by (cases "llmAnswer rt (DependencyQuery d)")
     (auto simp: dependencyCheckChain_def invokeOracle_def
           elim: settled.elims)

lemma dependencyCheckChain_Rejected_iff:
  "snd (dependencyCheckChain rt d) = Rejected e \<longleftrightarrow>
   llmAnswer rt (DependencyQuery d) = Rejected e \<or>
   (\<exists>raw. llmAnswer rt (DependencyQuery d) = Fulfilled raw \<and>
          validateDependencyResponse (caseTable rt) raw = Inl e)"
  by (cases "llmAnswer rt (DependencyQuery d)")
     (auto simp: dependencyCheckChain_def invokeOracle_def
           elim: settled.elims)

lemma runHealthChecks_snd:
  "snd (runHealthChecks rt data) =
     (case promiseAll (settleOrder rt)
             (snd (healthAnalysisChain rt (systemMetrics data)))
             (snd (dependencyCheckChain rt (preparedData.dependencies data))) of
        Fulfilled (sysHealth, depHealth) \<Rightarrow>
          Fulfilled \<lparr> checkResults.systemHealth = sysHealth,
                      checkResults.dependencyHealth = depHealth,
                      originalInput = preparedData.originalInput data \<rparr>
      | Rejected err \<Rightarrow> Rejected (Error (js ''Health check failed: '' @ js_error.message err))
      | Pending \<Rightarrow> Pending)"
  by (simp add: runHealthChecks_def split_beta Let_def)

lemma comprehensiveHealthChain_snd:
  "snd (comprehensiveHealthChain rt input) =
     andThen (snd (runHealthChecks rt (prepareData input)))
       (\<lambda>results. Fulfilled (applyBusinessLogic rt results))"
  by (simp add: comprehensiveHealthChain_def split_beta Let_def)

lemma masterHealthCheckChain_snd:
  "snd (masterHealthCheckChain rt input) =
     andThen (snd (comprehensiveHealthChain rt input))
       (\<lambda>r. Fulfilled (conditionalResponseChain r))"
  by (simp add: masterHealthCheckChain_def split_beta Let_def)

lemma andThen_Fulfilled_iff:
  "andThen p (\<lambda>x. Fulfilled (f x)) = Fulfilled y \<longleftrightarrow> (\<exists>x. p = Fulfilled x \<and> y = f x)"
  by (cases p) auto

lemma andThen_Rejected_iff:
  "andThen p (\<lambda>x. Fulfilled (f x)) = Rejected e \<longleftrightarrow> p = Rejected e"
  by (cases p) auto

lemma comprehensiveHealthChain_Fulfilled_iff:
  "snd (comprehensiveHealthChain rt input) = Fulfilled r \<longleftrightarrow>
   (\<exists>sysHealth depHealth.
      snd (healthAnalysisChain rt (systemMetrics (prepareData input))) = Fulfilled sysHealth \<and>
      snd (dependencyCheckChain rt (preparedData.dependencies (prepareData input)))
        = Fulfilled depHealth \<and>
      r = applyBusinessLogic rt
            \<lparr> checkResults.systemHealth = sysHealth,
              checkResults.dependencyHealth = depHealth,
              originalInput = input \<rparr>)"
proof -
  let ?h = "snd (healthAnalysisChain rt (systemMetrics (prepareData input)))"
  let ?d = "snd (dependencyCheckChain rt (preparedData.dependencies (prepareData input)))"
  have orig: "preparedData.originalInput (prepareData input) = input"
    by (simp add: prepareData_def)
  show ?thesis
    unfolding comprehensiveHealthChain_snd runHealthChecks_snd orig
    by (cases "settleOrder rt"; cases ?h; cases ?d) auto
qed

lemma comprehensiveHealthChain_Rejected_iff:
  "snd (comprehensiveHealthChain rt input) = Rejected e \<longleftrightarrow>
   (\<exists>err. promiseAll (settleOrder rt)
            (snd (healthAnalysisChain rt (systemMetrics (prepareData input))))
            (snd (dependencyCheckChain rt (preparedData.dependencies (prepareData input))))
          = Rejected err \<and>
          e = Error (js ''Health check failed: '' @ js_error.message err))"
proof -
  let ?h = "snd (healthAnalysisChain rt (systemMetrics (prepareData input)))"
  let ?d = "snd (dependencyCheckChain rt (preparedData.dependencies (prepareData input)))"
  show ?thesis
    unfolding comprehensiveHealthChain_snd runHealthChecks_snd
    by (cases "promiseAll (settleOrder rt) ?h ?d") (auto split: prod.splits)
qed

subsection \<open>The business logic\<close>

lemma overallHealth_applyBusinessLogic:
  "comprehensiveResult.status (applyBusinessLogic rt results) =
     overallHealth
       (checkDependencyHealth (checkResults.dependencyHealth results)
          (checkSystemHealth (checkResults.systemHealth results)
             \<lparr> overallHealth = js ''HEALTHY'', reasoningSoFar = [] \<rparr>))"
  by (simp add: applyBusinessLogic_def Let_def)

lemma status_applyBusinessLogic:
  "comprehensiveResult.status (applyBusinessLogic rt results) =
     (if checkResults.systemHealth results = js ''UNHEALTHY'' \<or>
         checkResults.dependencyHealth results = js ''DEPENDENCY_FAILURE''
      then js ''UNHEALTHY'' else js ''HEALTHY'')"
  by (simp add: applyBusinessLogic_def Let_def checkSystemHealth_def checkDependencyHealth_def)

lemma verdicts_applyBusinessLogic:
  "comprehensiveResult.systemHealth (applyBusinessLogic rt results) = checkResults.systemHealth results"
  "comprehensiveResult.dependencyHealth (applyBusinessLogic rt results) = checkResults.dependencyHealth results"
  by (simp_all add: applyBusinessLogic_def Let_def)

subsection \<open>Invocations of the language model and replies of the endpoint\<close>

lemma fst_comprehensiveHealthChain:
  "fst (comprehensiveHealthChain rt input) =
     [HealthQuery (systemMetrics (prepareData input)),
      DependencyQuery (dependencyString (healthCheckInput.dependencies input))]"
  by (simp add: comprehensiveHealthChain_def runHealthChecks_def healthAnalysisChain_def
        dependencyCheckChain_def invokeOracle_def prepareData_def split_beta Let_def)

lemma fst_postHealthDependencies:
  "fst (postHealthDependencies rt (JSArray deps)) = [DependencyQuery (dependencyString deps)]"
  by (simp add: postHealthDependencies_def dependencyCheckChain_def invokeOracle_def
        split_beta Let_def)

lemma snd_postHealthDependencies_Fulfilled:
  "snd (dependencyCheckChain rt (dependencyString deps)) = Fulfilled verdict \<Longrightarrow>
   snd (postHealthDependencies rt (JSArray deps)) =
     Some \<lparr> statusCode = (if verdict = js ''DEPENDENCIES_HEALTHY'' then 200 else 500),
            body = \<lparr> status = (if verdict = js ''DEPENDENCIES_HEALTHY''
                                then js ''healthy'' else js ''unhealthy''),
                     dependencyHealth = Some verdict,
                     dependencies = Some deps,
                     message = (if verdict = js ''DEPENDENCIES_HEALTHY''
                                then js ''All dependencies are healthy''
                                else js ''Some dependencies are failing''),
                     error = None,
                     timestamp = Some (nowISO rt) \<rparr> \<rparr>"
  by (simp add: postHealthDependencies_def split_beta Let_def)

subsection \<open>Evaluation of the model on concrete inputs\<close>

lemmas string_defs =
  trim_def isWhiteSpace_def upperCodeUnit_def asciiUpper_def isHighSurrogate_def
  join_def dependencyString_def dependencyLine_def

lemmas chain_defs =
  scriptedRuntime_def exampleInput_def
  validateHealthResponse_def validateDependencyResponse_def validResponses_def
  invokeOracle_def healthAnalysisChain_def dependencyCheckChain_def
  prepareData_def runHealthChecks_def applyBusinessLogic_def
  checkSystemHealth_def checkDependencyHealth_def comprehensiveHealthChain_def
  healthyResponseChain_def unhealthyResponseChain_def conditionalResponseChain_def
  masterHealthCheckChain_def dependencyFailureReply_def postHealthDependencies_def

section \<open>Verified properties\<close>

text \<open>
  C1. The overall status computed by the business logic is \<^verbatim>\<open>UNHEALTHY\<close> exactly when
  the system health is \<^verbatim>\<open>UNHEALTHY\<close> or the dependency health is \<^verbatim>\<open>DEPENDENCY_FAILURE\<close>,
  and \<^verbatim>\<open>HEALTHY\<close> otherwise; a healthy system with \<^verbatim>\<open>PARTIAL_DEPENDENCY\<close> stays
  \<^verbatim>\<open>HEALTHY\<close>. The status is what the two consecutive checks make of the initial value
  \<^verbatim>\<open>HEALTHY\<close>, and neither check takes \<^verbatim>\<open>UNHEALTHY\<close> back. Whenever the comprehensive
  chain fulfils, its result holds two validated verdicts and obeys the same equivalence.
\<close>

theorem overall_status_unhealthy_iff:
  "(comprehensiveResult.status (applyBusinessLogic rt results) = js ''UNHEALTHY'' \<longleftrightarrow>
      checkResults.systemHealth results = js ''UNHEALTHY'' \<or>
      checkResults.dependencyHealth results = js ''DEPENDENCY_FAILURE'')
   \<and> (comprehensiveResult.status (applyBusinessLogic rt results) = js ''HEALTHY'' \<longleftrightarrow>
      \<not> (checkResults.systemHealth results = js ''UNHEALTHY'' \<or>
         checkResults.dependencyHealth results = js ''DEPENDENCY_FAILURE''))
   \<and> (checkResults.systemHealth results = js ''HEALTHY'' \<and>
      checkResults.dependencyHealth results = js ''PARTIAL_DEPENDENCY''
      \<longrightarrow> comprehensiveResult.status (applyBusinessLogic rt results) = js ''HEALTHY'')
   \<and> comprehensiveResult.status (applyBusinessLogic rt results) =
       overallHealth
         (checkDependencyHealth (checkResults.dependencyHealth results)
            (checkSystemHealth (checkResults.systemHealth results)
               \<lparr> overallHealth = js ''HEALTHY'', reasoningSoFar = [] \<rparr>))
   \<and> (overallHealth st = js ''UNHEALTHY''
      \<longrightarrow> overallHealth (checkSystemHealth sysHealth st) = js ''UNHEALTHY'' \<and>
          overallHealth (checkDependencyHealth depHealth st) = js ''UNHEALTHY'')
   \<and> (snd (comprehensiveHealthChain rt input) = Fulfilled r
      \<longrightarrow> comprehensiveResult.systemHealth r \<in> {js ''HEALTHY'', js ''UNHEALTHY''} \<and>
          comprehensiveResult.dependencyHealth r \<in>
            {js ''DEPENDENCY_FAILURE'', js ''PARTIAL_DEPENDENCY'', js ''DEPENDENCIES_HEALTHY''} \<and>
          (comprehensiveResult.status r = js ''UNHEALTHY'' \<longleftrightarrow>
             comprehensiveResult.systemHealth r = js ''UNHEALTHY'' \<or>
             comprehensiveResult.dependencyHealth r = js ''DEPENDENCY_FAILURE''))"
proof -
  have merge: "comprehensiveResult.status (applyBusinessLogic rt results) = js ''UNHEALTHY'' \<longleftrightarrow>
      checkResults.systemHealth results = js ''UNHEALTHY'' \<or>
      checkResults.dependencyHealth results = js ''DEPENDENCY_FAILURE''"
    by (simp add: status_applyBusinessLogic)
  have healthy: "comprehensiveResult.status (applyBusinessLogic rt results) = js ''HEALTHY'' \<longleftrightarrow>
      \<not> (checkResults.systemHealth results = js ''UNHEALTHY'' \<or>
         checkResults.dependencyHealth results = js ''DEPENDENCY_FAILURE'')"
    by (simp add: status_applyBusinessLogic)
  have partial: "checkResults.systemHealth results = js ''HEALTHY'' \<and>
      checkResults.dependencyHealth results = js ''PARTIAL_DEPENDENCY''
      \<longrightarrow> comprehensiveResult.status (applyBusinessLogic rt results) = js ''HEALTHY''"
    by (simp add: status_applyBusinessLogic)
  have mono: "overallHealth st = js ''UNHEALTHY''
      \<longrightarrow> overallHealth (checkSystemHealth sysHealth st) = js ''UNHEALTHY'' \<and>
          overallHealth (checkDependencyHealth depHealth st) = js ''UNHEALTHY''"
    by (simp add: checkSystemHealth_def checkDependencyHealth_def)
  have chain: "snd (comprehensiveHealthChain rt input) = Fulfilled r
      \<longrightarrow> comprehensiveResult.systemHealth r \<in> {js ''HEALTHY'', js ''UNHEALTHY''} \<and>
          comprehensiveResult.dependencyHealth r \<in>
            {js ''DEPENDENCY_FAILURE'', js ''PARTIAL_DEPENDENCY'', js ''DEPENDENCIES_HEALTHY''} \<and>
          (comprehensiveResult.status r = js ''UNHEALTHY'' \<longleftrightarrow>
             comprehensiveResult.systemHealth r = js ''UNHEALTHY'' \<or>
             comprehensiveResult.dependencyHealth r = js ''DEPENDENCY_FAILURE'')"
  proof
    assume "snd (comprehensiveHealthChain rt input) = Fulfilled r"
    then obtain sh dh where
      h: "snd (healthAnalysisChain rt (systemMetrics (prepareData input))) = Fulfilled sh" and
      d: "snd (dependencyCheckChain rt (preparedData.dependencies (prepareData input)))
            = Fulfilled dh" and
      r: "r = applyBusinessLogic rt
            \<lparr> checkResults.systemHealth = sh, checkResults.dependencyHealth = dh,
              originalInput = input \<rparr>"
      unfolding comprehensiveHealthChain_Fulfilled_iff by blast
    from h obtain raw where "validateHealthResponse (caseTable rt) raw = Inr sh"
      unfolding healthAnalysisChain_Fulfilled_iff by blast
    then have sh: "sh \<in> {js ''HEALTHY'', js ''UNHEALTHY''}"
      by (auto simp: validateHealthResponse_def Let_def split: if_splits)
    from d obtain raw' where "validateDependencyResponse (caseTable rt) raw' = Inr dh"
      unfolding dependencyCheckChain_Fulfilled_iff by blast
    then have dh: "dh \<in> {js ''DEPENDENCY_FAILURE'', js ''PARTIAL_DEPENDENCY'', js ''DEPENDENCIES_HEALTHY''}"
      by (auto simp: validateDependencyResponse_def validResponses_def Let_def split: if_splits)
    from sh dh show "comprehensiveResult.systemHealth r \<in> {js ''HEALTHY'', js ''UNHEALTHY''} \<and>
          comprehensiveResult.dependencyHealth r \<in>
            {js ''DEPENDENCY_FAILURE'', js ''PARTIAL_DEPENDENCY'', js ''DEPENDENCIES_HEALTHY''} \<and>
          (comprehensiveResult.status r = js ''UNHEALTHY'' \<longleftrightarrow>
             comprehensiveResult.systemHealth r = js ''UNHEALTHY'' \<or>
             comprehensiveResult.dependencyHealth r = js ''DEPENDENCY_FAILURE'')"
      unfolding r verdicts_applyBusinessLogic status_applyBusinessLogic by simp
  qed
  from merge healthy partial overallHealth_applyBusinessLogic mono chain show ?thesis
    by blast
qed

theorem overall_status_unhealthy_iff_witness:
  "checkResults.systemHealth
       \<lparr> checkResults.systemHealth = js ''HEALTHY'',
         checkResults.dependencyHealth = js ''PARTIAL_DEPENDENCY'',
         originalInput = exampleInput \<rparr> = js ''HEALTHY''
   \<and> comprehensiveResult.status
        (applyBusinessLogic
           (scriptedRuntime (Fulfilled (js ''healthy'')) (Fulfilled (js ''partial_dependency'')))
           \<lparr> checkResults.systemHealth = js ''HEALTHY'',
             checkResults.dependencyHealth = js ''PARTIAL_DEPENDENCY'',
             originalInput = exampleInput \<rparr>) = js ''HEALTHY''
   \<and> overallHealth \<lparr> overallHealth = js ''UNHEALTHY'', reasoningSoFar = [] \<rparr> = js ''UNHEALTHY''
   \<and> overallHealth
        (checkDependencyHealth (js ''DEPENDENCIES_HEALTHY'')
           \<lparr> overallHealth = js ''UNHEALTHY'', reasoningSoFar = [] \<rparr>) = js ''UNHEALTHY''
   \<and> snd (comprehensiveHealthChain
             (scriptedRuntime (Fulfilled (js ''healthy'')) (Fulfilled (js ''partial_dependency'')))
             exampleInput)
       = Fulfilled
           (applyBusinessLogic
              (scriptedRuntime (Fulfilled (js ''healthy'')) (Fulfilled (js ''partial_dependency'')))
              \<lparr> checkResults.systemHealth = js ''HEALTHY'',
                checkResults.dependencyHealth = js ''PARTIAL_DEPENDENCY'',
                originalInput = exampleInput \<rparr>)"
  using overall_status_unhealthy_iff
    [where rt = "scriptedRuntime (Fulfilled (js ''healthy'')) (Fulfilled (js ''partial_dependency''))"
       and results = "\<lparr> checkResults.systemHealth = js ''HEALTHY'',
                          checkResults.dependencyHealth = js ''PARTIAL_DEPENDENCY'',
                          originalInput = exampleInput \<rparr>"
       and st = "\<lparr> overallHealth = js ''UNHEALTHY'', reasoningSoFar = [] \<rparr>"
       and sysHealth = "js ''HEALTHY''" and depHealth = "js ''DEPENDENCIES_HEALTHY''"
       and input = exampleInput
       and r = "applyBusinessLogic
              (scriptedRuntime (Fulfilled (js ''healthy'')) (Fulfilled (js ''partial_dependency'')))
              \<lparr> checkResults.systemHealth = js ''HEALTHY'',
                checkResults.dependencyHealth = js ''PARTIAL_DEPENDENCY'',
                originalInput = exampleInput \<rparr>"]
  by (simp add: chain_defs string_defs)

text \<open>
  C2. If the language model rejects the health query or the dependency query, or answers
  one of them with a text that the validator refuses, then the comprehensive chain
  rejects, and so does the master chain, whatever becomes of the other check, even if it
  never settles. The error is \<^verbatim>\<open>Health check failed:\<close> followed by the message of a check
  that failed. Neither chain fulfils with any result.
\<close>

theorem fail_fast_join:
  assumes "(\<exists>e. llmAnswer rt (HealthQuery (systemMetrics (prepareData input))) = Rejected e)
         \<or> (\<exists>raw e. llmAnswer rt (HealthQuery (systemMetrics (prepareData input))) = Fulfilled raw
                    \<and> validateHealthResponse (caseTable rt) raw = Inl e)
         \<or> (\<exists>e. llmAnswer rt (DependencyQuery (preparedData.dependencies (prepareData input)))
                  = Rejected e)
         \<or> (\<exists>raw e. llmAnswer rt (DependencyQuery (preparedData.dependencies (prepareData input)))
                      = Fulfilled raw
                    \<and> validateDependencyResponse (caseTable rt) raw = Inl e)"
  shows "(\<exists>e. (snd (healthAnalysisChain rt (systemMetrics (prepareData input))) = Rejected e \<or>
              snd (dependencyCheckChain rt (preparedData.dependencies (prepareData input)))
                = Rejected e)
            \<and> snd (comprehensiveHealthChain rt input)
                = Rejected (Error (js ''Health check failed: '' @ js_error.message e))
            \<and> snd (masterHealthCheckChain rt input)
                = Rejected (Error (js ''Health check failed: '' @ js_error.message e)))
       \<and> (\<forall>r. snd (comprehensiveHealthChain rt input) \<noteq> Fulfilled r)
       \<and> (\<forall>r. snd (masterHealthCheckChain rt input) \<noteq> Fulfilled r)"
proof -
  let ?h = "snd (healthAnalysisChain rt (systemMetrics (prepareData input)))"
  let ?d = "snd (dependencyCheckChain rt (preparedData.dependencies (prepareData input)))"
  from assms have "(\<exists>e. ?h = Rejected e) \<or> (\<exists>e. ?d = Rejected e)"
    unfolding healthAnalysisChain_Rejected_iff dependencyCheckChain_Rejected_iff by blast
  then have "\<exists>err. promiseAll (settleOrder rt) ?h ?d = Rejected err"
    by (simp only: promiseAll_Rejected_iff)
  then obtain err where all: "promiseAll (settleOrder rt) ?h ?d = Rejected err" ..
  then have source: "?h = Rejected err \<or> ?d = Rejected err"
    by (rule promiseAll_Rejected_source)
  from all have c: "snd (comprehensiveHealthChain rt input)
      = Rejected (Error (js ''Health check failed: '' @ js_error.message err))"
    unfolding comprehensiveHealthChain_Rejected_iff by blast
  then have m: "snd (masterHealthCheckChain rt input)
      = Rejected (Error (js ''Health check failed: '' @ js_error.message err))"
    by (simp add: masterHealthCheckChain_snd)
  from source c m show ?thesis by auto
qed

theorem fail_fast_join_witness:
  "llmAnswer (scriptedRuntime (Fulfilled (js ''maybe'')) Pending)
      (HealthQuery (systemMetrics (prepareData exampleInput))) = Fulfilled (js ''maybe'')
   \<and> validateHealthResponse (caseTable (scriptedRuntime (Fulfilled (js ''maybe'')) Pending))
        (js ''maybe'') = Inl (Error (js ''Invalid health check response: maybe''))
   \<and> snd (comprehensiveHealthChain (scriptedRuntime (Fulfilled (js ''maybe'')) Pending)
            exampleInput)
       = Rejected (Error (js ''Health check failed: Invalid health check response: maybe''))
   \<and> snd (masterHealthCheckChain (scriptedRuntime (Fulfilled (js ''maybe'')) Pending)
            exampleInput)
       = Rejected (Error (js ''Health check failed: Invalid health check response: maybe''))"
  using fail_fast_join
    [where rt = "scriptedRuntime (Fulfilled (js ''maybe'')) Pending" and input = exampleInput]
  by (simp add: chain_defs string_defs)

text \<open>
  C3. For every response of the language model, \<open>validateHealthResponse\<close> succeeds
  exactly when the response, trimmed and uppercased, is \<^verbatim>\<open>HEALTHY\<close> or \<^verbatim>\<open>UNHEALTHY\<close>, and
  then returns that normalised text; every other response makes it throw an error whose
  message carries the raw response. In particular \<^verbatim>\<open>healthy\<close> in any mix of upper and
  lower case, with white space before and after, is accepted as \<^verbatim>\<open>HEALTHY\<close>.
\<close>

theorem validateHealthResponse_trimmed_uppercased:
  "((\<exists>v. validateHealthResponse uc response = Inr v) \<longleftrightarrow>
      toUpperCase uc (trim response) = js ''HEALTHY'' \<or>
      toUpperCase uc (trim response) = js ''UNHEALTHY'')
   \<and> validateHealthResponse uc response =
       (if toUpperCase uc (trim response) = js ''HEALTHY'' \<or>
           toUpperCase uc (trim response) = js ''UNHEALTHY''
        then Inr (toUpperCase uc (trim response))
        else Inl (Error (js ''Invalid health check response: '' @ response)))
   \<and> (list_all isWhiteSpace pre \<and> list_all isWhiteSpace post \<and>
        list_all2 (\<lambda>c u. c = u \<or> c = u + 0x20) h (js ''HEALTHY'')
        \<longrightarrow> validateHealthResponse uc (pre @ h @ post) = Inr (js ''HEALTHY''))"
  using validateHealthResponse_casing [of pre post h uc]
  by (simp add: validateHealthResponse_def Let_def)

theorem validateHealthResponse_trimmed_uppercased_witness:
  "list_all isWhiteSpace [0x20, 0x0A] \<and> list_all isWhiteSpace [0x09] \<and>
   list_all2 (\<lambda>c u. c = u \<or> c = u + 0x20) (js ''hEaLthY'') (js ''HEALTHY'') \<and>
   validateHealthResponse (\<lambda>cp. []) ([0x20, 0x0A] @ js ''hEaLthY'' @ [0x09]) = Inr (js ''HEALTHY'')"
  using validateHealthResponse_trimmed_uppercased
          [of "\<lambda>cp. []" "[]" "[0x20, 0x0A]" "[0x09]" "js ''hEaLthY''"]
  by (simp add: isWhiteSpace_def)

text \<open>
  C4. For every response of the language model, \<open>validateDependencyResponse\<close> either
  returns the trimmed, uppercased response, which is then one of the three literals
  \<^verbatim>\<open>DEPENDENCY_FAILURE\<close>, \<^verbatim>\<open>PARTIAL_DEPENDENCY\<close>, \<^verbatim>\<open>DEPENDENCIES_HEALTHY\<close>, or throws an
  error carrying the raw response. Hence a value with which the dependency check chain
  fulfils is always one of the three literals.
\<close>

theorem validateDependencyResponse_three_literals:
  "((validateDependencyResponse uc response = Inr (toUpperCase uc (trim response)) \<and>
       toUpperCase uc (trim response) \<in>
         {js ''DEPENDENCY_FAILURE'', js ''PARTIAL_DEPENDENCY'', js ''DEPENDENCIES_HEALTHY''})
     \<or> (validateDependencyResponse uc response =
           Inl (Error (js ''Invalid dependency check response: '' @ response)) \<and>
         toUpperCase uc (trim response) \<notin>
           {js ''DEPENDENCY_FAILURE'', js ''PARTIAL_DEPENDENCY'', js ''DEPENDENCIES_HEALTHY''}))
   \<and> (snd (dependencyCheckChain rt deps) = Fulfilled v \<longrightarrow>
        v \<in> {js ''DEPENDENCY_FAILURE'', js ''PARTIAL_DEPENDENCY'', js ''DEPENDENCIES_HEALTHY''})"
proof -
  have set: "set validResponses =
      {js ''DEPENDENCY_FAILURE'', js ''PARTIAL_DEPENDENCY'', js ''DEPENDENCIES_HEALTHY''}"
    by (simp add: validResponses_def)
  have a: "\<And>t r w. validateDependencyResponse t r = Inr w \<Longrightarrow> w \<in> set validResponses"
    by (auto simp: validateDependencyResponse_def Let_def split: if_splits)
  have "snd (dependencyCheckChain rt deps) = Fulfilled v \<Longrightarrow> v \<in> set validResponses"
  proof (cases "llmAnswer rt (DependencyQuery deps)")
    case (Fulfilled r)
    assume "snd (dependencyCheckChain rt deps) = Fulfilled v"
    with Fulfilled have "settled (validateDependencyResponse (caseTable rt) r) = Fulfilled v"
      by (simp add: dependencyCheckChain_def invokeOracle_def)
    then have "validateDependencyResponse (caseTable rt) r = Inr v"
      by (cases "validateDependencyResponse (caseTable rt) r") simp_all
    then show ?thesis by (rule a)
  qed (simp_all add: dependencyCheckChain_def invokeOracle_def)
  then show ?thesis
    unfolding set [symmetric]
    by (simp add: validateDependencyResponse_def Let_def)
qed

theorem validateDependencyResponse_three_literals_witness:
  "snd (dependencyCheckChain (scriptedRuntime Pending (Fulfilled (js '' partial_dependency '')))
          (js ''- DB: up (Critical)'')) = Fulfilled (js ''PARTIAL_DEPENDENCY'')
   \<and> validateDependencyResponse (\<lambda>cp. []) (js '' partial_dependency '')
       = Inr (js ''PARTIAL_DEPENDENCY'')
   \<and> validateDependencyResponse (\<lambda>cp. []) (js ''degraded'')
       = Inl (Error (js ''Invalid dependency check response: degraded''))"
  using validateDependencyResponse_three_literals
          [of "\<lambda>cp. []" "js '' partial_dependency ''"
              "scriptedRuntime Pending (Fulfilled (js '' partial_dependency ''))"
              "js ''- DB: up (Critical)''" "js ''PARTIAL_DEPENDENCY''"]
        validateDependencyResponse_three_literals
          [of "\<lambda>cp. []" "js ''degraded''"
              "scriptedRuntime Pending (Fulfilled (js '' partial_dependency ''))"
              "js ''- DB: up (Critical)''" "js ''PARTIAL_DEPENDENCY''"]
  by (simp add: chain_defs string_defs)

text \<open>
  C5. The response formatter depends on the comprehensive result alone. For status
  \<^verbatim>\<open>HEALTHY\<close> it gives HTTP status 200, the message \<^verbatim>\<open>System is healthy\<close> and no
  recommendations. For status \<^verbatim>\<open>UNHEALTHY\<close> it gives 500, \<^verbatim>\<open>System is unhealthy\<close>, and
  the resource recommendation exactly when the system health is \<^verbatim>\<open>UNHEALTHY\<close>, followed
  by the dependency recommendation exactly when the dependency health is
  \<^verbatim>\<open>DEPENDENCY_FAILURE\<close>; \<^verbatim>\<open>PARTIAL_DEPENDENCY\<close> adds none.
\<close>

theorem conditionalResponseChain_mapping:
  "(comprehensiveResult.status r = js ''HEALTHY''
      \<longrightarrow> conditionalResponseChain r =
            \<lparr> httpStatus = 200,
              formattedResponse.message = js ''System is healthy'',
              details = r,
              recommendations = [] \<rparr>)
   \<and> (comprehensiveResult.status r = js ''UNHEALTHY''
      \<longrightarrow> conditionalResponseChain r =
            \<lparr> httpStatus = 500,
              formattedResponse.message = js ''System is unhealthy'',
              details = r,
              recommendations =
                (if comprehensiveResult.systemHealth r = js ''UNHEALTHY''
                 then [js ''Check system resources and optimize performance''] else []) @
                (if comprehensiveResult.dependencyHealth r = js ''DEPENDENCY_FAILURE''
                 then [js ''Investigate and restore critical service dependencies''] else []) \<rparr>
          \<and> (js ''Check system resources and optimize performance''
                \<in> set (recommendations (conditionalResponseChain r))
              \<longleftrightarrow> comprehensiveResult.systemHealth r = js ''UNHEALTHY'')
          \<and> (js ''Investigate and restore critical service dependencies''
                \<in> set (recommendations (conditionalResponseChain r))
              \<longleftrightarrow> comprehensiveResult.dependencyHealth r = js ''DEPENDENCY_FAILURE''))"
  by (simp add: conditionalResponseChain_def healthyResponseChain_def
        unhealthyResponseChain_def Let_def)

theorem conditionalResponseChain_mapping_witness:
  "comprehensiveResult.status
       (applyBusinessLogic
          (scriptedRuntime (Fulfilled (js ''UNHEALTHY'')) (Fulfilled (js ''PARTIAL_DEPENDENCY'')))
          \<lparr> checkResults.systemHealth = js ''UNHEALTHY'',
            checkResults.dependencyHealth = js ''PARTIAL_DEPENDENCY'',
            originalInput = exampleInput \<rparr>) = js ''UNHEALTHY''
   \<and> recommendations
        (conditionalResponseChain
           (applyBusinessLogic
              (scriptedRuntime (Fulfilled (js ''UNHEALTHY'')) (Fulfilled (js ''PARTIAL_DEPENDENCY'')))
              \<lparr> checkResults.systemHealth = js ''UNHEALTHY'',
                checkResults.dependencyHealth = js ''PARTIAL_DEPENDENCY'',
                originalInput = exampleInput \<rparr>))
       = [js ''Check system resources and optimize performance'']
   \<and> comprehensiveResult.status
       (applyBusinessLogic
          (scriptedRuntime (Fulfilled (js ''HEALTHY'')) (Fulfilled (js ''PARTIAL_DEPENDENCY'')))
          \<lparr> checkResults.systemHealth = js ''HEALTHY'',
            checkResults.dependencyHealth = js ''PARTIAL_DEPENDENCY'',
            originalInput = exampleInput \<rparr>) = js ''HEALTHY''
   \<and> httpStatus
        (conditionalResponseChain
           (applyBusinessLogic
              (scriptedRuntime (Fulfilled (js ''HEALTHY'')) (Fulfilled (js ''PARTIAL_DEPENDENCY'')))
              \<lparr> checkResults.systemHealth = js ''HEALTHY'',
                checkResults.dependencyHealth = js ''PARTIAL_DEPENDENCY'',
                originalInput = exampleInput \<rparr>)) = 200"
  using conditionalResponseChain_mapping
    [of "applyBusinessLogic
          (scriptedRuntime (Fulfilled (js ''UNHEALTHY'')) (Fulfilled (js ''PARTIAL_DEPENDENCY'')))
          \<lparr> checkResults.systemHealth = js ''UNHEALTHY'',
            checkResults.dependencyHealth = js ''PARTIAL_DEPENDENCY'',
            originalInput = exampleInput \<rparr>"]
    conditionalResponseChain_mapping
    [of "applyBusinessLogic
          (scriptedRuntime (Fulfilled (js ''HEALTHY'')) (Fulfilled (js ''PARTIAL_DEPENDENCY'')))
          \<lparr> checkResults.systemHealth = js ''HEALTHY'',
            checkResults.dependencyHealth = js ''PARTIAL_DEPENDENCY'',
            originalInput = exampleInput \<rparr>"]
  by (simp add: chain_defs)

text \<open>
  C6. End to end through the master chain, on the example input (every metric 10, response
  time 50, error rate 0, one critical dependency \<^verbatim>\<open>DB\<close> that is \<^verbatim>\<open>up\<close>): when the language
  model answers \<^verbatim>\<open>HEALTHY\<close> and \<^verbatim>\<open>DEPENDENCIES_HEALTHY\<close>, the response has HTTP status 200,
  no recommendations, and details of status \<^verbatim>\<open>HEALTHY\<close>; when it answers \<^verbatim>\<open>UNHEALTHY\<close>
  and \<^verbatim>\<open>DEPENDENCY_FAILURE\<close>, the response has HTTP status 500, details of status
  \<^verbatim>\<open>UNHEALTHY\<close>, and the resource recommendation followed by the dependency
  recommendation. The status is a field of the details, the comprehensive result.
\<close>

theorem master_chain_end_to_end:
  "(llmAnswer rt (HealthQuery \<lparr> cpuUsage = 10, memoryUsage = 10, diskUsage = 10,
                                systemMetrics.responseTime = 50,
                                systemMetrics.errorRate = 0 \<rparr>)
      = Fulfilled (js ''HEALTHY'') \<and>
    llmAnswer rt (DependencyQuery (js ''- DB: up (Critical)''))
      = Fulfilled (js ''DEPENDENCIES_HEALTHY'')
    \<longrightarrow> snd (masterHealthCheckChain rt exampleInput) =
          Fulfilled
            \<lparr> httpStatus = 200,
              formattedResponse.message = js ''System is healthy'',
              details =
                \<lparr> comprehensiveResult.status = js ''HEALTHY'',
                  comprehensiveResult.systemHealth = js ''HEALTHY'',
                  comprehensiveResult.dependencyHealth = js ''DEPENDENCIES_HEALTHY'',
                  reasoning = [js ''System metrics are within healthy ranges'',
                               js ''All dependencies are healthy''],
                  comprehensiveResult.timestamp = nowISO rt,
                  checkedComponents =
                    \<lparr> cpu = 10, memory = 10, disk = 10, responseTime = 50, errorRate = 0,
                      checkedComponents.dependencies = 1 \<rparr> \<rparr>,
              recommendations = [] \<rparr>)
   \<and> (llmAnswer rt (HealthQuery \<lparr> cpuUsage = 10, memoryUsage = 10, diskUsage = 10,
                                  systemMetrics.responseTime = 50,
                                  systemMetrics.errorRate = 0 \<rparr>)
        = Fulfilled (js ''UNHEALTHY'') \<and>
      llmAnswer rt (DependencyQuery (js ''- DB: up (Critical)''))
        = Fulfilled (js ''DEPENDENCY_FAILURE'')
      \<longrightarrow> snd (masterHealthCheckChain rt exampleInput) =
            Fulfilled
              \<lparr> httpStatus = 500,
                formattedResponse.message = js ''System is unhealthy'',
                details =
                  \<lparr> comprehensiveResult.status = js ''UNHEALTHY'',
                    comprehensiveResult.systemHealth = js ''UNHEALTHY'',
                    comprehensiveResult.dependencyHealth = js ''DEPENDENCY_FAILURE'',
                    reasoning = [js ''System metrics indicate unhealthy state'',
                                 js ''Critical dependencies are failing''],
                    comprehensiveResult.timestamp = nowISO rt,
                    checkedComponents =
                      \<lparr> cpu = 10, memory = 10, disk = 10, responseTime = 50, errorRate = 0,
                        checkedComponents.dependencies = 1 \<rparr> \<rparr>,
                recommendations =
                  [js ''Check system resources and optimize performance'',
                   js ''Investigate and restore critical service dependencies''] \<rparr>)"
  by (simp add: chain_defs string_defs)

theorem master_chain_end_to_end_witness:
  "llmAnswer (scriptedRuntime (Fulfilled (js ''HEALTHY'')) (Fulfilled (js ''DEPENDENCIES_HEALTHY'')))
      (HealthQuery \<lparr> cpuUsage = 10, memoryUsage = 10, diskUsage = 10,
                     systemMetrics.responseTime = 50, systemMetrics.errorRate = 0 \<rparr>)
     = Fulfilled (js ''HEALTHY'')
   \<and> llmAnswer (scriptedRuntime (Fulfilled (js ''HEALTHY'')) (Fulfilled (js ''DEPENDENCIES_HEALTHY'')))
      (DependencyQuery (js ''- DB: up (Critical)''))
     = Fulfilled (js ''DEPENDENCIES_HEALTHY'')
   \<and> (case snd (masterHealthCheckChain
                  (scriptedRuntime (Fulfilled (js ''HEALTHY''))
                     (Fulfilled (js ''DEPENDENCIES_HEALTHY''))) exampleInput) of
        Fulfilled response \<Rightarrow>
          httpStatus response = 200 \<and> recommendations response = [] \<and>
          comprehensiveResult.status (details response) = js ''HEALTHY''
      | Rejected err \<Rightarrow> False
      | Pending \<Rightarrow> False)
   \<and> llmAnswer (scriptedRuntime (Fulfilled (js ''UNHEALTHY'')) (Fulfilled (js ''DEPENDENCY_FAILURE'')))
      (HealthQuery \<lparr> cpuUsage = 10, memoryUsage = 10, diskUsage = 10,
                     systemMetrics.responseTime = 50, systemMetrics.errorRate = 0 \<rparr>)
     = Fulfilled (js ''UNHEALTHY'')
   \<and> llmAnswer (scriptedRuntime (Fulfilled (js ''UNHEALTHY'')) (Fulfilled (js ''DEPENDENCY_FAILURE'')))
      (DependencyQuery (js ''- DB: up (Critical)''))
     = Fulfilled (js ''DEPENDENCY_FAILURE'')
   \<and> (case snd (masterHealthCheckChain
                  (scriptedRuntime (Fulfilled (js ''UNHEALTHY''))
                     (Fulfilled (js ''DEPENDENCY_FAILURE''))) exampleInput) of
        Fulfilled response \<Rightarrow>
          httpStatus response = 500 \<and>
          recommendations response =
            [js ''Check system resources and optimize performance'',
             js ''Investigate and restore critical service dependencies''] \<and>
          comprehensiveResult.status (details response) = js ''UNHEALTHY''
      | Rejected err \<Rightarrow> False
      | Pending \<Rightarrow> False)"
  using master_chain_end_to_end
          [of "scriptedRuntime (Fulfilled (js ''HEALTHY'')) (Fulfilled (js ''DEPENDENCIES_HEALTHY''))"]
        master_chain_end_to_end
          [of "scriptedRuntime (Fulfilled (js ''UNHEALTHY'')) (Fulfilled (js ''DEPENDENCY_FAILURE''))"]
  by (simp add: scriptedRuntime_def)

text \<open>
  C7. The dependency renderer gives, for every dependency, the line
  \<^verbatim>\<open>- {name}: {status} ({Critical|Non-Critical})\<close>, with \<^verbatim>\<open>Critical\<close> exactly when the
  critical flag is set and the status text copied as it is, whatever it says; the lines
  follow the order of the list and are separated by single line feeds. This rendering is
  what the dependency check is invoked with, in the comprehensive chain and in the
  dependency endpoint.
\<close>

theorem dependencyString_lines:
  "dependencyLine dep =
     js ''- '' @ name dep @ js '': '' @ dependency.status dep @ js '' ('' @
     (if critical dep then js ''Critical'' else js ''Non-Critical'') @ js '')''
   \<and> dependencyString [] = []
   \<and> dependencyString [dep] = dependencyLine dep
   \<and> dependencyString (dep # dep' # deps) =
       dependencyLine dep @ [0x0A] @ dependencyString (dep' # deps)
   \<and> dependencyString
       [\<lparr> name = js ''Cache'', dependency.status = js ''degraded'', critical = False \<rparr>,
        \<lparr> name = js ''DB'', dependency.status = js ''up'', critical = True \<rparr>]
     = js ''- Cache: degraded (Non-Critical)'' @ [0x0A] @ js ''- DB: up (Critical)''
   \<and> fst (comprehensiveHealthChain rt input) =
       [HealthQuery (systemMetrics (prepareData input)),
        DependencyQuery (dependencyString (healthCheckInput.dependencies input))]
   \<and> fst (postHealthDependencies rt' (JSArray deps)) =
       [DependencyQuery (dependencyString deps)]"
proof -
  have line: "dependencyLine dep =
     js ''- '' @ name dep @ js '': '' @ dependency.status dep @ js '' ('' @
     (if critical dep then js ''Critical'' else js ''Non-Critical'') @ js '')''"
    by (simp add: dependencyLine_def)
  have nil: "dependencyString [] = []"
    by (simp add: dependencyString_def join_Nil)
  have single: "dependencyString [dep] = dependencyLine dep"
    by (simp add: dependencyString_def join_single)
  have cons: "dependencyString (dep # dep' # deps) =
       dependencyLine dep @ [0x0A] @ dependencyString (dep' # deps)"
    by (simp add: dependencyString_def join_Cons2)
  have ex: "dependencyString
       [\<lparr> name = js ''Cache'', dependency.status = js ''degraded'', critical = False \<rparr>,
        \<lparr> name = js ''DB'', dependency.status = js ''up'', critical = True \<rparr>]
     = js ''- Cache: degraded (Non-Critical)'' @ [0x0A] @ js ''- DB: up (Critical)''"
    by (simp add: string_defs)
  from line nil single cons ex fst_comprehensiveHealthChain fst_postHealthDependencies
  show ?thesis by blast
qed

theorem dependencyString_lines_witness:
  "dependencyString
       [\<lparr> name = js ''Queue'', dependency.status = js ''draining'', critical = True \<rparr>,
        \<lparr> name = js ''Mail'', dependency.status = js ''down'', critical = False \<rparr>]
     = js ''- Queue: draining (Critical)'' @ [0x0A] @ js ''- Mail: down (Non-Critical)''
   \<and> fst (postHealthDependencies (scriptedRuntime Pending Pending)
            (JSArray
               [\<lparr> name = js ''Queue'', dependency.status = js ''draining'', critical = True \<rparr>,
                \<lparr> name = js ''Mail'', dependency.status = js ''down'', critical = False \<rparr>]
             :: int jsvalue))
     = [DependencyQuery
          (js ''- Queue: draining (Critical)'' @ [0x0A] @ js ''- Mail: down (Non-Critical)'')]"
  using dependencyString_lines
    [where dep = "\<lparr> name = js ''Queue'', dependency.status = js ''draining'', critical = True \<rparr>"
       and dep' = "\<lparr> name = js ''Mail'', dependency.status = js ''down'', critical = False \<rparr>"
       and deps = "[]"
       and rt' = "scriptedRuntime Pending Pending"
       and rt = "scriptedRuntime Pending Pending" and input = exampleInput]
  by (simp add: chain_defs string_defs)

text \<open>
  C8. Whenever the comprehensive chain fulfils, its result carries as timestamp the
  clock reading (the ISO string of \<^verbatim>\<open>new Date()\<close>) and, as checked components, the five
  metric values of the input unchanged and the number of its dependencies.
\<close>

theorem comprehensiveResult_timestamp_echo:
  assumes "snd (comprehensiveHealthChain rt input) = Fulfilled r"
  shows "comprehensiveResult.timestamp r = nowISO rt
       \<and> checkedComponents r =
           \<lparr> cpu = cpuUsage input,
             memory = memoryUsage input,
             disk = diskUsage input,
             responseTime = systemMetrics.responseTime input,
             errorRate = systemMetrics.errorRate input,
             checkedComponents.dependencies = length (healthCheckInput.dependencies input) \<rparr>"
proof -
  from assms obtain sh dh where
    "r = applyBusinessLogic rt
           \<lparr> checkResults.systemHealth = sh, checkResults.dependencyHealth = dh,
             originalInput = input \<rparr>"
    unfolding comprehensiveHealthChain_Fulfilled_iff by blast
  then show ?thesis
    by (simp add: applyBusinessLogic_def Let_def)
qed

theorem comprehensiveResult_timestamp_echo_witness:
  "snd (comprehensiveHealthChain
          (scriptedRuntime (Fulfilled (js ''healthy'')) (Fulfilled (js ''dependencies_healthy'')))
          exampleInput)
     = Fulfilled
         (applyBusinessLogic
            (scriptedRuntime (Fulfilled (js ''healthy'')) (Fulfilled (js ''dependencies_healthy'')))
            \<lparr> checkResults.systemHealth = js ''HEALTHY'',
              checkResults.dependencyHealth = js ''DEPENDENCIES_HEALTHY'',
              originalInput = exampleInput \<rparr>)
   \<and> comprehensiveResult.timestamp
        (applyBusinessLogic
            (scriptedRuntime (Fulfilled (js ''healthy'')) (Fulfilled (js ''dependencies_healthy'')))
            \<lparr> checkResults.systemHealth = js ''HEALTHY'',
              checkResults.dependencyHealth = js ''DEPENDENCIES_HEALTHY'',
              originalInput = exampleInput \<rparr>)
       = js ''2025-01-01T00:00:00.000Z''
   \<and> checkedComponents
        (applyBusinessLogic
            (scriptedRuntime (Fulfilled (js ''healthy'')) (Fulfilled (js ''dependencies_healthy'')))
            \<lparr> checkResults.systemHealth = js ''HEALTHY'',
              checkResults.dependencyHealth = js ''DEPENDENCIES_HEALTHY'',
              originalInput = exampleInput \<rparr>)
       = \<lparr> cpu = 10, memory = 10, disk = 10, responseTime = 50, errorRate = 0,
           checkedComponents.dependencies = 1 \<rparr>"
  using comprehensiveResult_timestamp_echo
    [where rt = "scriptedRuntime (Fulfilled (js ''healthy'')) (Fulfilled (js ''dependencies_healthy''))"
       and input = exampleInput
       and r = "applyBusinessLogic
            (scriptedRuntime (Fulfilled (js ''healthy'')) (Fulfilled (js ''dependencies_healthy'')))
            \<lparr> checkResults.systemHealth = js ''HEALTHY'',
              checkResults.dependencyHealth = js ''DEPENDENCIES_HEALTHY'',
              originalInput = exampleInput \<rparr>"]
  by (simp add: chain_defs string_defs)

text \<open>
  C9. When the \<^verbatim>\<open>dependencies\<close> property of the request body is absent or is not an
  array, the dependency endpoint replies with HTTP status 400 and the validation message,
  and the language model has not been invoked.
\<close>

theorem dependencies_not_array_rejected:
  assumes "deps = JSUndefined \<or> \<not> isArray deps"
  shows "postHealthDependencies rt deps =
           ([], Some \<lparr> statusCode = 400,
                        body = \<lparr> status = js ''error'',
                                 dependencyHealth = None,
                                 dependencies = None,
                                 message = js ''Dependencies array is required in request body'',
                                 error = None,
                                 timestamp = None \<rparr> \<rparr>)"
proof -
  from assms have "\<not> isArray deps" by auto
  then show ?thesis by (simp add: postHealthDependencies_def)
qed

theorem dependencies_not_array_rejected_witness:
  "\<not> isArray (JSUndefined :: int jsvalue)
   \<and> postHealthDependencies (scriptedRuntime Pending Pending) (JSUndefined :: int jsvalue) =
           ([], Some \<lparr> statusCode = 400,
                        body = \<lparr> status = js ''error'',
                                 dependencyHealth = None,
                                 dependencies = None,
                                 message = js ''Dependencies array is required in request body'',
                                 error = None,
                                 timestamp = None \<rparr> \<rparr>)
   \<and> \<not> isArray (JSString (js ''Database: up'') :: int jsvalue)
   \<and> postHealthDependencies (scriptedRuntime Pending Pending)
         (JSString (js ''Database: up'') :: int jsvalue) =
           ([], Some \<lparr> statusCode = 400,
                        body = \<lparr> status = js ''error'',
                                 dependencyHealth = None,
                                 dependencies = None,
                                 message = js ''Dependencies array is required in request body'',
                                 error = None,
                                 timestamp = None \<rparr> \<rparr>)"
  using dependencies_not_array_rejected
          [of "JSUndefined :: int jsvalue" "scriptedRuntime Pending Pending"]
        dependencies_not_array_rejected
          [of "JSString (js ''Database: up'') :: int jsvalue" "scriptedRuntime Pending Pending"]
  by simp

text \<open>
  C10. When the dependency check fulfils with a verdict, the dependency endpoint replies
  200 with status \<^verbatim>\<open>healthy\<close> exactly when the verdict is \<^verbatim>\<open>DEPENDENCIES_HEALTHY\<close>, and 500
  with status \<^verbatim>\<open>unhealthy\<close> for the other two verdicts. So \<^verbatim>\<open>PARTIAL_DEPENDENCY\<close> is
  reported unhealthy here, whereas in the comprehensive evaluation a healthy system with
  \<^verbatim>\<open>PARTIAL_DEPENDENCY\<close> has overall status \<^verbatim>\<open>HEALTHY\<close> and HTTP status 200.
\<close>

theorem dependency_endpoint_status:
  assumes "snd (dependencyCheckChain rt (dependencyString deps)) = Fulfilled verdict"
  shows "snd (postHealthDependencies rt (JSArray deps :: 'v::zero jsvalue)) =
           Some \<lparr> statusCode = (if verdict = js ''DEPENDENCIES_HEALTHY'' then 200 else 500),
                  body = \<lparr> status = (if verdict = js ''DEPENDENCIES_HEALTHY''
                                      then js ''healthy'' else js ''unhealthy''),
                           dependencyHealth = Some verdict,
                           dependencies = Some deps,
                           message = (if verdict = js ''DEPENDENCIES_HEALTHY''
                                      then js ''All dependencies are healthy''
                                      else js ''Some dependencies are failing''),
                           error = None,
                           timestamp = Some (nowISO rt) \<rparr> \<rparr>
       \<and> verdict \<in> {js ''DEPENDENCY_FAILURE'', js ''PARTIAL_DEPENDENCY'',
                      js ''DEPENDENCIES_HEALTHY''}
       \<and> (verdict = js ''PARTIAL_DEPENDENCY'' \<longrightarrow>
            (\<exists>reply. snd (postHealthDependencies rt (JSArray deps :: 'v jsvalue)) = Some reply
                     \<and> statusCode reply = 500 \<and> status (body reply) = js ''unhealthy''))
       \<and> comprehensiveResult.status
            (applyBusinessLogic rt
               \<lparr> checkResults.systemHealth = js ''HEALTHY'',
                 checkResults.dependencyHealth = js ''PARTIAL_DEPENDENCY'',
                 originalInput = input \<rparr>) = js ''HEALTHY''
       \<and> httpStatus
            (conditionalResponseChain
               (applyBusinessLogic rt
                  \<lparr> checkResults.systemHealth = js ''HEALTHY'',
                    checkResults.dependencyHealth = js ''PARTIAL_DEPENDENCY'',
                    originalInput = input \<rparr>)) = 200"
proof -
  note reply = snd_postHealthDependencies_Fulfilled [OF assms]
  from assms obtain raw where "validateDependencyResponse (caseTable rt) raw = Inr verdict"
    unfolding dependencyCheckChain_Fulfilled_iff by blast
  then have valid: "verdict \<in> {js ''DEPENDENCY_FAILURE'', js ''PARTIAL_DEPENDENCY'',
                      js ''DEPENDENCIES_HEALTHY''}"
    by (auto simp: validateDependencyResponse_def validResponses_def Let_def split: if_splits)
  have partial: "verdict = js ''PARTIAL_DEPENDENCY'' \<longrightarrow>
            (\<exists>reply. snd (postHealthDependencies rt (JSArray deps :: 'v jsvalue)) = Some reply
                     \<and> statusCode reply = 500 \<and> status (body reply) = js ''unhealthy'')"
    by (simp add: reply)
  have st: "comprehensiveResult.status
            (applyBusinessLogic rt
               \<lparr> checkResults.systemHealth = js ''HEALTHY'',
                 checkResults.dependencyHealth = js ''PARTIAL_DEPENDENCY'',
                 originalInput = input \<rparr>) = js ''HEALTHY''"
    by (simp add: status_applyBusinessLogic)
  then have "httpStatus
            (conditionalResponseChain
               (applyBusinessLogic rt
                  \<lparr> checkResults.systemHealth = js ''HEALTHY'',
                    checkResults.dependencyHealth = js ''PARTIAL_DEPENDENCY'',
                    originalInput = input \<rparr>)) = 200"
    by (simp add: conditionalResponseChain_def healthyResponseChain_def)
  with reply valid partial st show ?thesis by blast
qed

theorem dependency_endpoint_status_witness:
  "snd (dependencyCheckChain (scriptedRuntime Pending (Fulfilled (js ''partial_dependency'')))
          (dependencyString (healthCheckInput.dependencies exampleInput)))
     = Fulfilled (js ''PARTIAL_DEPENDENCY'')
   \<and> (\<exists>reply. snd (postHealthDependencies
                     (scriptedRuntime Pending (Fulfilled (js ''partial_dependency'')))
                     (JSArray (healthCheckInput.dependencies exampleInput) :: int jsvalue))
                = Some reply
              \<and> statusCode reply = 500 \<and> status (body reply) = js ''unhealthy'')"
  using dependency_endpoint_status
    [where rt = "scriptedRuntime Pending (Fulfilled (js ''partial_dependency''))"
       and deps = "healthCheckInput.dependencies exampleInput"
       and verdict = "js ''PARTIAL_DEPENDENCY''" and input = exampleInput and 'v = int]
  by (simp add: chain_defs string_defs)

end
